theory Spec2Isabelle
  imports Complex_Main "HOL-Library.Log_Nat"
begin

section \<open>Python numbers\<close>

text \<open>
  \<^verbatim>\<open>calculate_score\<close> computes with Python floats (IEEE binary64). Every finite float
  is a rational number, so a float is modelled by the rational it denotes and each
  operation rounds its exact result to the nearest binary64 value, ties to even.
  The scores lie between 0 and 100, so overflow, subnormal numbers and the sign of
  zero play no part and are not modelled.
\<close>

definition round_half_even :: "rat \<Rightarrow> int" where
  "round_half_even r =
     (let f = \<lfloor>r\<rfloor>; d = r - of_int f
      in if d < 1 / 2 then f
         else if 1 / 2 < d then f + 1
         else if even f then f else f + 1)"

definition pow2 :: "int \<Rightarrow> rat" where
  "pow2 e = (if 0 \<le> e then 2 ^ nat e else 1 / 2 ^ nat (- e))"

text \<open>The exponent \<open>e\<close> with \<open>2 ^ e \<le> x < 2 ^ (e + 1)\<close>, for positive \<open>x\<close>.\<close>

definition ilog2 :: "rat \<Rightarrow> int" where
  "ilog2 x = (if 1 \<le> x then bitlen \<lfloor>x\<rfloor> - 1 else - bitlen (\<lceil>1 / x\<rceil> - 1))"

text \<open>Rounding to 53 significant bits.\<close>

definition fl_pos :: "rat \<Rightarrow> rat" where
  "fl_pos x = (let ulp = pow2 (ilog2 x - 52) in of_int (round_half_even (x / ulp)) * ulp)"

definition fl :: "rat \<Rightarrow> rat" where
  "fl x = (if x = 0 then 0 else if 0 < x then fl_pos x else - fl_pos (- x))"

text \<open>\<^verbatim>\<open>a / b\<close> on two ints (true division, correctly rounded); \<open>b\<close> is not zero where it is used.\<close>

definition py_truediv :: "int \<Rightarrow> int \<Rightarrow> rat" where
  "py_truediv a b = fl (of_int a / of_int b)"

text \<open>\<^verbatim>\<open>x * y\<close> on floats.\<close>

definition py_mul :: "rat \<Rightarrow> rat \<Rightarrow> rat" where
  "py_mul x y = fl (x * y)"

text \<open>
  \<^verbatim>\<open>round(x, ndigits)\<close> on a float: CPython converts the exact value of \<open>x\<close> to the
  nearest decimal with \<open>ndigits\<close> places, ties to even, and reads that decimal back as
  a float.
\<close>

definition py_round :: "rat \<Rightarrow> nat \<Rightarrow> rat" where
  "py_round x ndigits = fl (of_int (round_half_even (x * 10 ^ ndigits)) / 10 ^ ndigits)"

text \<open>\<^verbatim>\<open>int(x)\<close>: truncation towards zero.\<close>

definition py_int :: "rat \<Rightarrow> int" where
  "py_int x = (if 0 \<le> x then \<lfloor>x\<rfloor> else \<lceil>x\<rceil>)"


section \<open>The data model (models.py)\<close>

text \<open>
  Each Django model is a record and each table a list of rows in insertion order.
  Primary keys are natural numbers. A foreign key holds the key of the row it refers
  to. The many-to-many relation \<^verbatim>\<open>Answer.selected_options\<close> is its own table of
  (answer key, option key) pairs. The timestamps that no modelled operation reads
  (\<^verbatim>\<open>created_at\<close>, \<^verbatim>\<open>updated_at\<close>, \<^verbatim>\<open>deleted_at\<close>, \<^verbatim>\<open>started_at\<close>, \<^verbatim>\<open>answered_at\<close>) are left out.
\<close>

datatype question_kind = Single | Multiple

record category =
  category_id :: nat
  category_name :: string

record question =
  question_id :: nat
  question_category :: nat
  question_text :: string
  question_type :: question_kind
  is_deleted :: bool

record option_row =
  option_id :: nat
  option_question :: nat
  option_text :: string
  option_is_correct :: bool

text \<open>
  \<open>score\<close> is declared \<^verbatim>\<open>IntegerField(null=True)\<close>. On an instance in memory the attribute
  holds whatever number was assigned to it, so its type here is \<open>rat option\<close>; what a
  saved row holds is decided by \<open>QuizAttempt_save\<close> below.
\<close>

record quiz_attempt =
  attempt_id :: nat
  attempt_user :: nat
  attempt_category :: nat
  total_questions :: int
  passing_score :: int
  time_limit :: int
  score :: "rat option"
  passed :: bool
  completed_at :: "nat option"

record answer =
  answer_id :: nat
  answer_attempt :: nat
  answer_question :: nat
  is_flagged :: bool

record db =
  categories :: "category list"
  questions :: "question list"
  options :: "option_row list"
  quiz_attempts :: "quiz_attempt list"
  answers :: "answer list"
  answer_selected_options :: "(nat \<times> nat) list"


subsection \<open>Related managers\<close>

text \<open>\<^verbatim>\<open>attempt.answers.all()\<close>\<close>

definition QuizAttempt_answers :: "db \<Rightarrow> quiz_attempt \<Rightarrow> answer list" where
  "QuizAttempt_answers d self = filter (\<lambda>a. answer_attempt a = attempt_id self) (answers d)"

text \<open>\<^verbatim>\<open>question.options\<close>, for the question with key \<open>q\<close>\<close>

definition Question_options :: "db \<Rightarrow> nat \<Rightarrow> option_row list" where
  "Question_options d q = filter (\<lambda>opt. option_question opt = q) (options d)"

text \<open>\<^verbatim>\<open>answer.selected_options.all()\<close>: the join of the relation table with the options\<close>

definition Answer_selected_options :: "db \<Rightarrow> answer \<Rightarrow> option_row list" where
  "Answer_selected_options d self =
     filter (\<lambda>opt. (answer_id self, option_id opt) \<in> set (answer_selected_options d)) (options d)"


subsection \<open>Grading\<close>

text \<open>
  \<^verbatim>\<open>Answer.is_correct\<close>. Django model instances are equal, and hash alike, when their
  primary keys are equal, so a Python set of instances is the set of their keys.
\<close>

definition Answer_is_correct :: "db \<Rightarrow> answer \<Rightarrow> bool" where
  "Answer_is_correct d self =
     (let correct_options =
            set (map option_id (filter option_is_correct (Question_options d (answer_question self))));
          selected = set (map option_id (Answer_selected_options d self))
      in correct_options = selected)"

text \<open>\<^verbatim>\<open>QuizAttempt.calculate_score\<close>\<close>

definition calculate_score :: "db \<Rightarrow> quiz_attempt \<Rightarrow> rat" where
  "calculate_score d self =
     (let total_answers = length (QuizAttempt_answers d self)
      in if total_answers = 0 then 0
         else
           let correct_answers = length (filter (Answer_is_correct d) (QuizAttempt_answers d self));
               percentage = py_mul (py_truediv (int correct_answers) (int total_answers)) 100
           in py_round percentage 2)"


subsection \<open>Saving rows\<close>

text \<open>
  \<^verbatim>\<open>Model.save()\<close> updates the row with the instance's primary key and inserts a row when
  there is none. Before a value is written, the field prepares it: Django's
  \<^verbatim>\<open>IntegerField.get_prep_value\<close> applies \<^verbatim>\<open>int(value)\<close>, so the \<open>score\<close> column of a saved
  row holds the integer part of the number on the instance.
\<close>

definition QuizAttempt_row :: "quiz_attempt \<Rightarrow> quiz_attempt" where
  "QuizAttempt_row self = self\<lparr>score := map_option (\<lambda>s. of_int (py_int s)) (score self)\<rparr>"

definition QuizAttempt_save :: "db \<Rightarrow> quiz_attempt \<Rightarrow> db" where
  "QuizAttempt_save d self =
     (if \<exists>r \<in> set (quiz_attempts d). attempt_id r = attempt_id self
      then d\<lparr>quiz_attempts :=
             map (\<lambda>r. if attempt_id r = attempt_id self then QuizAttempt_row self else r)
               (quiz_attempts d)\<rparr>
      else d\<lparr>quiz_attempts := quiz_attempts d @ [QuizAttempt_row self]\<rparr>)"

definition Answer_save :: "db \<Rightarrow> answer \<Rightarrow> db" where
  "Answer_save d self =
     (if \<exists>r \<in> set (answers d). answer_id r = answer_id self
      then d\<lparr>answers := map (\<lambda>r. if answer_id r = answer_id self then self else r) (answers d)\<rparr>
      else d\<lparr>answers := answers d @ [self]\<rparr>)"

text \<open>
  \<^verbatim>\<open>QuizAttempt.submit_quiz\<close>, at the time \<open>now\<close>. It returns the instance as it is in
  memory afterwards and the database after \<^verbatim>\<open>self.save()\<close>.
\<close>

definition QuizAttempt_submit_quiz :: "db \<Rightarrow> quiz_attempt \<Rightarrow> nat \<Rightarrow> quiz_attempt \<times> db" where
  "QuizAttempt_submit_quiz d self now =
     (let self1 = self\<lparr>completed_at := Some now\<rparr>;
          s = calculate_score d self1;
          self2 = self1\<lparr>score := Some s\<rparr>;
          self3 = self2\<lparr>passed := (of_int (passing_score self2) \<le> s)\<rparr>
      in (self3, QuizAttempt_save d self3))"


section \<open>The views (views.py)\<close>

text \<open>
  A view takes the database and the request and returns its response together with
  the database it leaves behind. Django runs each query in autocommit mode, so the
  writes made before an unhandled exception stay: the database is returned with the
  error as well. \<open>request_user\<close> is the authenticated user that \<^verbatim>\<open>login_required\<close> lets
  through. \<open>request_POST_options\<close> is \<^verbatim>\<open>request.POST.getlist('options')\<close>, each posted
  string given as the integer it denotes, or \<open>None\<close> when it denotes none.
\<close>

datatype http_method = GET | POST | HEAD

record request =
  request_user :: nat
  request_method :: http_method
  request_POST_options :: "int option list"

datatype exn = Option_DoesNotExist | ValueError | IntegrityError

record question_context =
  context_attempt :: quiz_attempt
  context_answer :: answer
  context_question :: nat
  prev_id :: "nat option"
  next_id :: "nat option"
  is_first :: bool
  is_last :: bool
  has_selection :: bool

record result_entry =
  result_question :: nat
  result_selected_options :: "option_row list"
  result_correct_options :: "option_row list"
  result_is_correct :: bool

datatype response =
    Http404
  | Unhandled exn
  | Error_redirect_dashboard string
  | Redirect_take_quiz nat
  | Redirect_quiz_results nat
  | Render_question_view question_context
  | JsonResponse_flagged bool
  | Render_review_panel quiz_attempt "answer list"
  | Render_results quiz_attempt "result_entry list"

text \<open>\<^verbatim>\<open>get_object_or_404(QuizAttempt, id=attempt_id, user=request.user)\<close>\<close>

definition get_attempt :: "db \<Rightarrow> nat \<Rightarrow> nat \<Rightarrow> quiz_attempt option" where
  "get_attempt d aid u = find (\<lambda>r. attempt_id r = aid \<and> attempt_user r = u) (quiz_attempts d)"

text \<open>\<^verbatim>\<open>get_object_or_404(Answer, id=answer_id, attempt=attempt)\<close>\<close>

definition get_answer_of :: "db \<Rightarrow> nat \<Rightarrow> quiz_attempt \<Rightarrow> answer option" where
  "get_answer_of d ansid attempt =
     find (\<lambda>r. answer_id r = ansid \<and> answer_attempt r = attempt_id attempt) (answers d)"

text \<open>\<^verbatim>\<open>get_object_or_404(Answer, id=answer_id)\<close>\<close>

definition get_answer :: "db \<Rightarrow> nat \<Rightarrow> answer option" where
  "get_answer d ansid = find (\<lambda>r. answer_id r = ansid) (answers d)"

text \<open>\<^verbatim>\<open>list.index\<close>: the first position of \<open>x\<close>; Python raises ValueError when there is none.\<close>

fun index_of :: "'a list \<Rightarrow> 'a \<Rightarrow> nat option" where
  "index_of [] x = None"
| "index_of (y # ys) x = (if y = x then Some 0 else map_option Suc (index_of ys x))"

text \<open>\<^verbatim>\<open>answer.selected_options.clear()\<close> and \<^verbatim>\<open>answer.selected_options.add(option)\<close>\<close>

definition selected_options_clear :: "db \<Rightarrow> answer \<Rightarrow> db" where
  "selected_options_clear d self =
     d\<lparr>answer_selected_options :=
         filter (\<lambda>(a, opt). a \<noteq> answer_id self) (answer_selected_options d)\<rparr>"

definition selected_options_add :: "db \<Rightarrow> answer \<Rightarrow> option_row \<Rightarrow> db" where
  "selected_options_add d self opt =
     (if (answer_id self, option_id opt) \<in> set (answer_selected_options d) then d
      else d\<lparr>answer_selected_options :=
               answer_selected_options d @ [(answer_id self, option_id opt)]\<rparr>)"

text \<open>
  The loop of \<^verbatim>\<open>question_view\<close> over the posted option ids:
  \<^verbatim>\<open>Option.objects.get(id=option_id)\<close> raises ValueError for a value that is no integer
  and \<^verbatim>\<open>Option.DoesNotExist\<close> when no option has that key.
\<close>

fun add_posted_options :: "db \<Rightarrow> answer \<Rightarrow> int option list \<Rightarrow> exn option \<times> db" where
  "add_posted_options d self [] = (None, d)"
| "add_posted_options d self (v # vs) =
     (case v of
        None \<Rightarrow> (Some ValueError, d)
      | Some i \<Rightarrow>
          (case find (\<lambda>opt. int (option_id opt) = i) (options d) of
             None \<Rightarrow> (Some Option_DoesNotExist, d)
           | Some opt \<Rightarrow> add_posted_options (selected_options_add d self opt) self vs))"

definition question_view :: "db \<Rightarrow> request \<Rightarrow> nat \<Rightarrow> nat \<Rightarrow> response \<times> db" where
  "question_view d req aid ansid =
     (case get_attempt d aid (request_user req) of
        None \<Rightarrow> (Http404, d)
      | Some attempt \<Rightarrow>
     (case get_answer_of d ansid attempt of
        None \<Rightarrow> (Http404, d)
      | Some answer \<Rightarrow>
     (let ordered_ids = sort (map answer_id (QuizAttempt_answers d attempt))
      in case index_of ordered_ids (answer_id answer) of
        None \<Rightarrow> (Unhandled ValueError, d)
      | Some idx \<Rightarrow>
     (let prev = (if 0 < idx then Some (ordered_ids ! (idx - 1)) else None);
          next = (if int idx < int (length ordered_ids) - 1
                  then Some (ordered_ids ! (idx + 1)) else None);
          (err, d') =
            (if request_method req = POST
             then (case add_posted_options (selected_options_clear d answer) answer
                          (request_POST_options req) of
                     (Some e, d1) \<Rightarrow> (Some e, d1)
                   | (None, d1) \<Rightarrow> (None, Answer_save d1 answer))
             else (None, d))
      in case err of
           Some e \<Rightarrow> (Unhandled e, d')
         | None \<Rightarrow>
             (Render_question_view
                \<lparr>context_attempt = attempt, context_answer = answer,
                 context_question = answer_question answer,
                 prev_id = prev, next_id = next,
                 is_first = (idx = 0),
                 is_last = (int idx = int (length ordered_ids) - 1),
                 has_selection = (Answer_selected_options d' answer \<noteq> [])\<rparr>, d')))))"

definition toggle_flag :: "db \<Rightarrow> request \<Rightarrow> nat \<Rightarrow> response \<times> db" where
  "toggle_flag d req ansid =
     (case get_answer d ansid of
        None \<Rightarrow> (Http404, d)
      | Some answer \<Rightarrow>
          (let answer' = answer\<lparr>is_flagged := \<not> is_flagged answer\<rparr>
           in (JsonResponse_flagged (is_flagged answer'), Answer_save d answer')))"

definition review_panel :: "db \<Rightarrow> request \<Rightarrow> nat \<Rightarrow> response \<times> db" where
  "review_panel d req aid =
     (case get_attempt d aid (request_user req) of
        None \<Rightarrow> (Http404, d)
      | Some attempt \<Rightarrow> (Render_review_panel attempt (QuizAttempt_answers d attempt), d))"

definition submit_quiz :: "db \<Rightarrow> request \<Rightarrow> nat \<Rightarrow> nat \<Rightarrow> response \<times> db" where
  "submit_quiz d req now aid =
     (case get_attempt d aid (request_user req) of
        None \<Rightarrow> (Http404, d)
      | Some attempt \<Rightarrow>
          (if request_method req = POST
           then (let (attempt', d') = QuizAttempt_submit_quiz d attempt now
                 in (Redirect_quiz_results (attempt_id attempt'), d'))
           else (Redirect_take_quiz (attempt_id attempt), d)))"

definition quiz_results :: "db \<Rightarrow> request \<Rightarrow> nat \<Rightarrow> response \<times> db" where
  "quiz_results d req aid =
     (case get_attempt d aid (request_user req) of
        None \<Rightarrow> (Http404, d)
      | Some attempt \<Rightarrow>
          (Render_results attempt
             (map (\<lambda>answer.
                     \<lparr>result_question = answer_question answer,
                      result_selected_options = Answer_selected_options d answer,
                      result_correct_options =
                        filter option_is_correct (Question_options d (answer_question answer)),
                      result_is_correct = Answer_is_correct d answer\<rparr>)
                (QuizAttempt_answers d attempt)), d))"


subsection \<open>Starting a quiz\<close>

text \<open>
  A new row gets a primary key above every key in its table.
\<close>

definition new_id :: "nat list \<Rightarrow> nat" where
  "new_id ids = Suc (fold max ids 0)"

text \<open>
  \<^verbatim>\<open>QuizAttempt.objects.create(user=..., category=..., total_questions=...)\<close>, the other
  fields at their declared defaults.
\<close>

definition QuizAttempt_create :: "db \<Rightarrow> nat \<Rightarrow> nat \<Rightarrow> int \<Rightarrow> quiz_attempt \<times> db" where
  "QuizAttempt_create d u c n =
     (let attempt =
            \<lparr>attempt_id = new_id (map attempt_id (quiz_attempts d)),
             attempt_user = u, attempt_category = c, total_questions = n,
             passing_score = 70, time_limit = 30, score = None, passed = False,
             completed_at = None\<rparr>
      in (attempt, d\<lparr>quiz_attempts := quiz_attempts d @ [attempt]\<rparr>))"

text \<open>
  \<^verbatim>\<open>Answer.objects.create(attempt=attempt, question=question)\<close>. The model declares
  \<^verbatim>\<open>unique_together = ['attempt', 'question']\<close>, so a second row for the same pair is
  refused with IntegrityError.
\<close>

definition Answer_create :: "db \<Rightarrow> nat \<Rightarrow> nat \<Rightarrow> exn + db" where
  "Answer_create d att q =
     (if \<exists>r \<in> set (answers d). answer_attempt r = att \<and> answer_question r = q
      then Inl IntegrityError
      else Inr (d\<lparr>answers := answers d @
                   [\<lparr>answer_id = new_id (map answer_id (answers d)), answer_attempt = att,
                     answer_question = q, is_flagged = False\<rparr>]\<rparr>))"

text \<open>The loop of \<^verbatim>\<open>start_quiz\<close> over the selected questions.\<close>

fun create_answers :: "db \<Rightarrow> nat \<Rightarrow> question list \<Rightarrow> exn option \<times> db" where
  "create_answers d att [] = (None, d)"
| "create_answers d att (q # qs) =
     (case Answer_create d att (question_id q) of
        Inl e \<Rightarrow> (Some e, d)
      | Inr d' \<Rightarrow> create_answers d' att qs)"

text \<open>
  \<^verbatim>\<open>random.sample(population, k)\<close> belongs to Python's library. It is taken as a
  parameter: the generator's choice is the list \<open>draw\<close> of the positions it picks, and
  the sample is the elements at those positions, in that order. What the library
  guarantees of a choice is \<open>valid_draw\<close>: \<open>k\<close> positions of the population, no position
  twice. (The library raises ValueError when \<open>k\<close> exceeds the population; \<^verbatim>\<open>start_quiz\<close>
  asks for at most its size.) The eligible questions are listed in table order here;
  the order of the query's result only decides which question a drawn position names.
\<close>

definition random_sample :: "'a list \<Rightarrow> nat \<Rightarrow> nat list \<Rightarrow> 'a list" where
  "random_sample population k draw = map (\<lambda>i. population ! i) (take k draw)"

definition valid_draw :: "nat \<Rightarrow> nat \<Rightarrow> nat list \<Rightarrow> bool" where
  "valid_draw n k draw \<longleftrightarrow> length draw = k \<and> distinct draw \<and> list_all (\<lambda>i. i < n) draw"

definition start_quiz :: "db \<Rightarrow> request \<Rightarrow> nat list \<Rightarrow> nat \<Rightarrow> response \<times> db" where
  "start_quiz d req draw cid =
     (case find (\<lambda>c. category_id c = cid) (categories d) of
        None \<Rightarrow> (Http404, d)
      | Some category \<Rightarrow>
          (let all_questions =
                 filter (\<lambda>q. question_category q = category_id category \<and> \<not> is_deleted q)
                   (questions d)
           in if length all_questions = 0
              then (Error_redirect_dashboard
                      (''No questions available for '' @ category_name category), d)
              else
                (let num_questions = min 10 (length all_questions);
                     selected_questions = random_sample all_questions num_questions draw;
                     (attempt, d1) =
                       QuizAttempt_create d (request_user req) (category_id category)
                         (int num_questions)
                 in case create_answers d1 (attempt_id attempt) selected_questions of
                      (Some e, d2) \<Rightarrow> (Unhandled e, d2)
                    | (None, d2) \<Rightarrow> (Redirect_take_quiz (attempt_id attempt), d2))))"


section \<open>Predicates of the statements\<close>

text \<open>The posted values that are the key of an existing option.\<close>

definition existing_option_ids :: "db \<Rightarrow> int option set" where
  "existing_option_ids d = (\<lambda>opt. Some (int (option_id opt))) ` set (options d)"


text \<open>
  The constraints the database keeps for the tables that \<^verbatim>\<open>start_quiz\<close> reads and extends:
  question keys are unique, every answer refers to an existing attempt, and every row
  of the selection table refers to an existing answer.
\<close>

definition database_constraints :: "db \<Rightarrow> bool" where
  "database_constraints d \<longleftrightarrow>
     distinct (map question_id (questions d)) \<and>
     set (map answer_attempt (answers d)) \<subseteq> set (map attempt_id (quiz_attempts d)) \<and>
     set (map fst (answer_selected_options d)) \<subseteq> set (map answer_id (answers d))"

section \<open>A small database\<close>

text \<open>
  Two categories with questions and one without. Question 1 is of type single with the
  options 1 (correct), 2, 3, 4; question 2 is of type multiple with the options 5 and 7
  correct among 5, 6, 7, 8; question 3 has no correct option; question 4 belongs to the
  other category; question 5 is soft-deleted. Attempt 1 belongs to user 1 and has the
  answers 1, 2, 3 on the questions 1, 2, 3, with the selections {1}, {5, 7} and {9};
  attempt 2 belongs to user 2 and has the answers 4 and 5 on the questions 1 and 3,
  with the selection {1} and no selection.
\<close>

definition demo_options :: "option_row list" where
  "demo_options =
     [\<lparr>option_id = 1, option_question = 1, option_text = ''A'', option_is_correct = True\<rparr>,
      \<lparr>option_id = 2, option_question = 1, option_text = ''B'', option_is_correct = False\<rparr>,
      \<lparr>option_id = 3, option_question = 1, option_text = ''C'', option_is_correct = False\<rparr>,
      \<lparr>option_id = 4, option_question = 1, option_text = ''D'', option_is_correct = False\<rparr>,
      \<lparr>option_id = 5, option_question = 2, option_text = ''List'', option_is_correct = True\<rparr>,
      \<lparr>option_id = 6, option_question = 2, option_text = ''Tuple'', option_is_correct = False\<rparr>,
      \<lparr>option_id = 7, option_question = 2, option_text = ''Dictionary'', option_is_correct = True\<rparr>,
      \<lparr>option_id = 8, option_question = 2, option_text = ''String'', option_is_correct = False\<rparr>,
      \<lparr>option_id = 9, option_question = 3, option_text = ''E'', option_is_correct = False\<rparr>,
      \<lparr>option_id = 10, option_question = 3, option_text = ''F'', option_is_correct = False\<rparr>,
      \<lparr>option_id = 11, option_question = 4, option_text = ''G'', option_is_correct = True\<rparr>,
      \<lparr>option_id = 12, option_question = 4, option_text = ''H'', option_is_correct = False\<rparr>]"

definition demo_questions :: "question list" where
  "demo_questions =
     [\<lparr>question_id = 1, question_category = 1, question_text = ''Q1'',
       question_type = Single, is_deleted = False\<rparr>,
      \<lparr>question_id = 2, question_category = 1, question_text = ''Q2'',
       question_type = Multiple, is_deleted = False\<rparr>,
      \<lparr>question_id = 3, question_category = 1, question_text = ''Q3'',
       question_type = Single, is_deleted = False\<rparr>,
      \<lparr>question_id = 4, question_category = 2, question_text = ''Q4'',
       question_type = Single, is_deleted = False\<rparr>,
      \<lparr>question_id = 5, question_category = 1, question_text = ''Q5'',
       question_type = Single, is_deleted = True\<rparr>]"

definition demo_attempt1 :: quiz_attempt where
  "demo_attempt1 =
     \<lparr>attempt_id = 1, attempt_user = 1, attempt_category = 1, total_questions = 3,
      passing_score = 70, time_limit = 30, score = None, passed = False, completed_at = None\<rparr>"

definition demo_attempt2 :: quiz_attempt where
  "demo_attempt2 =
     \<lparr>attempt_id = 2, attempt_user = 2, attempt_category = 1, total_questions = 2,
      passing_score = 100, time_limit = 30, score = None, passed = False, completed_at = None\<rparr>"

definition demo_answer :: "nat \<Rightarrow> nat \<Rightarrow> nat \<Rightarrow> answer" where
  "demo_answer i att q =
     \<lparr>answer_id = i, answer_attempt = att, answer_question = q, is_flagged = False\<rparr>"

definition demo_db :: db where
  "demo_db =
     \<lparr>categories =
        [\<lparr>category_id = 1, category_name = ''Python''\<rparr>,
         \<lparr>category_id = 2, category_name = ''Science''\<rparr>,
         \<lparr>category_id = 3, category_name = ''Empty''\<rparr>],
      questions = demo_questions,
      options = demo_options,
      quiz_attempts = [demo_attempt1, demo_attempt2],
      answers = [demo_answer 1 1 1, demo_answer 2 1 2, demo_answer 3 1 3,
                 demo_answer 4 2 1, demo_answer 5 2 3],
      answer_selected_options = [(1, 1), (2, 5), (2, 7), (3, 9), (4, 1)]\<rparr>"

definition demo_request :: "nat \<Rightarrow> http_method \<Rightarrow> int option list \<Rightarrow> request" where
  "demo_request u m vs = \<lparr>request_user = u, request_method = m, request_POST_options = vs\<rparr>"


section \<open>Grading one answer\<close>

lemma correct_ids:
  "set (map option_id (filter option_is_correct (Question_options d q))) =
     {option_id opt | opt. opt \<in> set (options d) \<and> option_question opt = q \<and> option_is_correct opt}"
  by (auto simp: Question_options_def)

lemma selected_ids:
  "set (map option_id (Answer_selected_options d a)) =
     {option_id opt | opt. opt \<in> set (options d) \<and>
        (answer_id a, option_id opt) \<in> set (answer_selected_options d)}"
  by (auto simp: Answer_selected_options_def)

lemma is_correct_ignores_questions:
  "Answer_is_correct (d\<lparr>questions := qs\<rparr>) a = Answer_is_correct d a"
  by (simp add: Answer_is_correct_def Question_options_def Answer_selected_options_def)

text \<open>
  The examples of the specification: with option 1 the only correct option of question
  1, the selection {1} is correct and the selections {1, 2} and {} are not; with the
  options 5 and 7 correct for question 2, the selection {5, 7} is correct and the
  selections {5} and {5, 7, 6} are not.
\<close>

lemma is_correct_examples:
  "Answer_is_correct demo_db (demo_answer 1 1 1)"
  "\<not> Answer_is_correct (demo_db\<lparr>answer_selected_options := [(1, 1), (1, 2)]\<rparr>) (demo_answer 1 1 1)"
  "\<not> Answer_is_correct (demo_db\<lparr>answer_selected_options := []\<rparr>) (demo_answer 1 1 1)"
  "Answer_is_correct demo_db (demo_answer 2 1 2)"
  "\<not> Answer_is_correct (demo_db\<lparr>answer_selected_options := [(2, 5)]\<rparr>) (demo_answer 2 1 2)"
  "\<not> Answer_is_correct (demo_db\<lparr>answer_selected_options := [(2, 5), (2, 7), (2, 6)]\<rparr>)
       (demo_answer 2 1 2)"
  by code_simp+

text \<open>
  C1. An answer is graded correct exactly when the set of the selected options' keys
  equals the set of keys of the options of its question that are marked correct; the
  question's type is not consulted, so rewriting the types of all questions in any way
  leaves every grade as it was.
\<close>

theorem is_correct_exact_match:
  "(Answer_is_correct d a \<longleftrightarrow>
      {option_id opt | opt. opt \<in> set (options d) \<and>
         (answer_id a, option_id opt) \<in> set (answer_selected_options d)} =
      {option_id opt | opt. opt \<in> set (options d) \<and>
         option_question opt = answer_question a \<and> option_is_correct opt}) \<and>
   Answer_is_correct (d\<lparr>questions := map (\<lambda>q. q\<lparr>question_type := t q\<rparr>) (questions d)\<rparr>) a =
     Answer_is_correct d a"
proof -
  have "Answer_is_correct d a \<longleftrightarrow>
          set (map option_id (filter option_is_correct (Question_options d (answer_question a)))) =
          set (map option_id (Answer_selected_options d a))"
    by (simp add: Answer_is_correct_def)
  then show ?thesis
    unfolding correct_ids selected_ids is_correct_ignores_questions by auto
qed

section \<open>Lookups\<close>

lemma find_map_update:
  assumes "find (\<lambda>r. key r = k \<and> P r) xs = Some a" and "key a' = k" and "P a'"
  shows "find (\<lambda>r. key r = k \<and> P r) (map (\<lambda>r. if key r = k then a' else r) xs) = Some a'"
  using assms by (induction xs) (auto split: if_splits)

lemma find_Some_mem: "find P xs = Some a \<Longrightarrow> a \<in> set xs \<and> P a"
  by (auto simp: find_Some_iff)

lemma index_of_None: "index_of xs x = None \<longleftrightarrow> x \<notin> set xs"
  by (induction xs) auto

lemma index_of_Some: "index_of xs x = Some i \<Longrightarrow> i < length xs \<and> xs ! i = x"
  by (induction xs arbitrary: i) (auto split: if_splits)

lemma index_of_nth: "distinct xs \<Longrightarrow> i < length xs \<Longrightarrow> index_of xs (xs ! i) = Some i"
proof (induction xs arbitrary: i)
  case Nil
  then show ?case by simp
next
  case (Cons y ys)
  then show ?case by (cases i) auto
qed

section \<open>Flagging\<close>

lemma get_answer_save:
  assumes "get_answer d (answer_id a') = Some a"
  shows "get_answer (Answer_save d a') (answer_id a') = Some a'"
proof -
  from assms have ex: "\<exists>r \<in> set (answers d). answer_id r = answer_id a'"
    by (auto simp: get_answer_def dest: find_Some_mem)
  from assms have "find (\<lambda>r. answer_id r = answer_id a' \<and> True) (answers d) = Some a"
    by (simp add: get_answer_def)
  then have "find (\<lambda>r. answer_id r = answer_id a' \<and> True)
               (map (\<lambda>r. if answer_id r = answer_id a' then a' else r) (answers d)) = Some a'"
    by (rule find_map_update) simp_all
  with ex show ?thesis by (simp add: get_answer_def Answer_save_def)
qed

lemma get_answer_id: "get_answer d ansid = Some a \<Longrightarrow> answer_id a = ansid"
  by (auto simp: get_answer_def dest: find_Some_mem)

lemma toggle_flag_once:
  assumes "get_answer d ansid = Some a"
  shows "toggle_flag d req ansid =
           (JsonResponse_flagged (\<not> is_flagged a), Answer_save d (a\<lparr>is_flagged := \<not> is_flagged a\<rparr>))"
    and "get_answer (snd (toggle_flag d req ansid)) ansid = Some (a\<lparr>is_flagged := \<not> is_flagged a\<rparr>)"
proof -
  show 1: "toggle_flag d req ansid =
           (JsonResponse_flagged (\<not> is_flagged a), Answer_save d (a\<lparr>is_flagged := \<not> is_flagged a\<rparr>))"
    using assms by (simp add: toggle_flag_def)
  have "answer_id (a\<lparr>is_flagged := \<not> is_flagged a\<rparr>) = ansid"
    using assms by (simp add: get_answer_id)
  with get_answer_save[of d "a\<lparr>is_flagged := \<not> is_flagged a\<rparr>" a] assms
  show "get_answer (snd (toggle_flag d req ansid)) ansid = Some (a\<lparr>is_flagged := \<not> is_flagged a\<rparr>)"
    by (simp add: 1)
qed

text \<open>
  C9. \<^verbatim>\<open>toggle_flag\<close> on an existing answer answers with the negated flag and stores
  it, and a second call answers with the original flag and stores that: toggling
  twice restores the flag.
\<close>

theorem toggle_flag_involution:
  assumes "get_answer d ansid = Some a"
  shows "fst (toggle_flag d req ansid) = JsonResponse_flagged (\<not> is_flagged a) \<and>
         map_option is_flagged (get_answer (snd (toggle_flag d req ansid)) ansid) =
           Some (\<not> is_flagged a) \<and>
         fst (toggle_flag (snd (toggle_flag d req ansid)) req' ansid) =
           JsonResponse_flagged (is_flagged a) \<and>
         map_option is_flagged
           (get_answer (snd (toggle_flag (snd (toggle_flag d req ansid)) req' ansid)) ansid) =
           Some (is_flagged a)"
proof -
  let ?a1 = "a\<lparr>is_flagged := \<not> is_flagged a\<rparr>"
  let ?d1 = "snd (toggle_flag d req ansid)"
  have g1: "get_answer ?d1 ansid = Some ?a1"
    by (rule toggle_flag_once(2)[OF assms])
  have r1: "fst (toggle_flag d req ansid) = JsonResponse_flagged (\<not> is_flagged a)"
    by (simp add: toggle_flag_once(1)[OF assms])
  have r2: "fst (toggle_flag ?d1 req' ansid) = JsonResponse_flagged (is_flagged a)"
    by (simp add: toggle_flag_once(1)[OF g1])
  have g2: "get_answer (snd (toggle_flag ?d1 req' ansid)) ansid =
              Some (?a1\<lparr>is_flagged := \<not> is_flagged ?a1\<rparr>)"
    by (rule toggle_flag_once(2)[OF g1])
  show ?thesis using g1 r1 r2 g2 by simp
qed

theorem toggle_flag_involution_witness:
  "get_answer demo_db 2 = Some (demo_answer 2 1 2) \<and>
   fst (toggle_flag demo_db (demo_request 1 POST []) 2) = JsonResponse_flagged True \<and>
   fst (toggle_flag (snd (toggle_flag demo_db (demo_request 1 POST []) 2))
          (demo_request 1 POST []) 2) = JsonResponse_flagged False \<and>
   map_option is_flagged
     (get_answer (snd (toggle_flag (snd (toggle_flag demo_db (demo_request 1 POST []) 2))
        (demo_request 1 POST []) 2)) 2) = Some False"
proof -
  have h: "get_answer demo_db 2 = Some (demo_answer 2 1 2)"
    by (simp add: get_answer_def demo_db_def demo_answer_def)
  show ?thesis
    using h toggle_flag_involution[OF h, of "demo_request 1 POST []" "demo_request 1 POST []"]
    by (simp add: demo_answer_def)
qed

section \<open>Scores\<close>

lemma round_half_even_nonneg: "0 \<le> r \<Longrightarrow> 0 \<le> round_half_even r"
  by (simp add: round_half_even_def Let_def)

lemma pow2_pos: "0 < pow2 e"
  by (simp add: pow2_def)

lemma fl_nonneg: "0 \<le> x \<Longrightarrow> 0 \<le> fl x"
  by (simp add: fl_def fl_pos_def Let_def round_half_even_nonneg pow2_pos less_imp_le)

lemma calculate_score_nonneg: "0 \<le> calculate_score d self"
  by (simp add: calculate_score_def Let_def py_round_def py_mul_def py_truediv_def
      fl_nonneg round_half_even_nonneg)

lemma calculate_score_attempt_id:
  "attempt_id self' = attempt_id self \<Longrightarrow> calculate_score d self' = calculate_score d self"
  by (simp add: calculate_score_def QuizAttempt_answers_def)

lemma py_int_ge_iff: "0 \<le> s \<Longrightarrow> of_int p \<le> (of_int (py_int s) :: rat) \<longleftrightarrow> of_int p \<le> s"
  by (simp add: py_int_def le_floor_iff)

lemma get_attempt_id:
  "get_attempt d aid u = Some a \<Longrightarrow> attempt_id a = aid \<and> attempt_user a = u"
  by (auto simp: get_attempt_def dest: find_Some_mem)

lemma get_attempt_save:
  assumes "get_attempt d aid u = Some a" and "attempt_id a' = aid" and "attempt_user a' = u"
  shows "get_attempt (QuizAttempt_save d a') aid u = Some (QuizAttempt_row a')"
proof -
  from assms(1,2) have ex: "\<exists>r \<in> set (quiz_attempts d). attempt_id r = attempt_id a'"
    by (auto simp: get_attempt_def dest: find_Some_mem)
  have "find (\<lambda>r. attempt_id r = aid \<and> attempt_user r = u)
          (map (\<lambda>r. if attempt_id r = aid then QuizAttempt_row a' else r) (quiz_attempts d)) =
        Some (QuizAttempt_row a')"
    using assms by (intro find_map_update[where a = a]) (simp_all add: get_attempt_def QuizAttempt_row_def)
  with ex assms(2) show ?thesis by (simp add: get_attempt_def QuizAttempt_save_def)
qed

lemma submit_quiz_post:
  assumes "get_attempt d aid (request_user req) = Some attempt" and "request_method req = POST"
  shows "fst (submit_quiz d req now aid) = Redirect_quiz_results aid"
    and "get_attempt (snd (submit_quiz d req now aid)) aid (request_user req) =
           Some (attempt\<lparr>score := Some (of_int \<lfloor>calculate_score d attempt\<rfloor>),
                         passed := (of_int (passing_score attempt) \<le> calculate_score d attempt),
                         completed_at := Some now\<rparr>)"
proof -
  let ?s = "calculate_score d attempt"
  let ?self3 = "attempt\<lparr>completed_at := Some now, score := Some ?s,
                       passed := (of_int (passing_score attempt) \<le> ?s)\<rparr>"
  have cs: "calculate_score d (attempt\<lparr>completed_at := Some now\<rparr>) = ?s"
    by (rule calculate_score_attempt_id) simp
  have sub: "QuizAttempt_submit_quiz d attempt now = (?self3, QuizAttempt_save d ?self3)"
    by (simp add: QuizAttempt_submit_quiz_def Let_def cs)
  have ids: "attempt_id attempt = aid" "attempt_user attempt = request_user req"
    using get_attempt_id[OF assms(1)] by simp_all
  show "fst (submit_quiz d req now aid) = Redirect_quiz_results aid"
    using assms ids by (simp add: submit_quiz_def sub)
  have "get_attempt (QuizAttempt_save d ?self3) aid (request_user req) = Some (QuizAttempt_row ?self3)"
    using assms(1) ids by (intro get_attempt_save[where a = attempt]) simp_all
  moreover have "QuizAttempt_row ?self3 =
      attempt\<lparr>score := Some (of_int \<lfloor>?s\<rfloor>),
              passed := (of_int (passing_score attempt) \<le> ?s), completed_at := Some now\<rparr>"
    using calculate_score_nonneg[of d attempt] by (simp add: QuizAttempt_row_def py_int_def)
  ultimately show "get_attempt (snd (submit_quiz d req now aid)) aid (request_user req) =
           Some (attempt\<lparr>score := Some (of_int \<lfloor>?s\<rfloor>),
                         passed := (of_int (passing_score attempt) \<le> ?s),
                         completed_at := Some now\<rparr>)"
    using assms by (simp add: submit_quiz_def sub)
qed

text \<open>
  C7. After the owner submits an attempt, the stored row's \<open>passed\<close> flag is \<open>True\<close>
  exactly when the stored score is at least the passing score, equality included; the
  same holds of the score as \<^verbatim>\<open>calculate_score\<close> returned it, before it was stored.
\<close>

theorem submit_passed_iff_score_ge_passing:
  assumes "get_attempt d aid (request_user req) = Some attempt" and "request_method req = POST"
  shows "\<exists>row s. get_attempt (snd (submit_quiz d req now aid)) aid (request_user req) = Some row \<and>
           score row = Some s \<and>
           passing_score row = passing_score attempt \<and>
           passed row = (of_int (passing_score row) \<le> s) \<and>
           passed row = (of_int (passing_score row) \<le> calculate_score d attempt)"
proof -
  let ?s = "calculate_score d attempt"
  have "(of_int (passing_score attempt) \<le> ?s) = (of_int (passing_score attempt) \<le> (of_int \<lfloor>?s\<rfloor> :: rat))"
    by (simp add: le_floor_iff)
  then show ?thesis
    using submit_quiz_post(2)[OF assms, of now] by simp
qed

lemma demo_score2: "calculate_score demo_db demo_attempt2 = 100"
  by code_simp

lemma demo_get_attempt2: "get_attempt demo_db 2 2 = Some demo_attempt2"
  by code_simp

theorem submit_passed_iff_score_ge_passing_witness:
  "get_attempt demo_db 2 (request_user (demo_request 2 POST [])) = Some demo_attempt2 \<and>
   request_method (demo_request 2 POST []) = POST \<and>
   get_attempt (snd (submit_quiz demo_db (demo_request 2 POST []) 9 2)) 2 2 =
     Some (demo_attempt2\<lparr>score := Some 100, passed := True, completed_at := Some 9\<rparr>) \<and>
   passing_score demo_attempt2 = 100"
proof -
  have h1: "get_attempt demo_db 2 (request_user (demo_request 2 POST [])) = Some demo_attempt2"
    using demo_get_attempt2 by (simp add: demo_request_def)
  have h2: "request_method (demo_request 2 POST []) = POST"
    by (simp add: demo_request_def)
  have p: "passing_score demo_attempt2 = 100"
    by (simp add: demo_attempt2_def)
  have g: "get_attempt (snd (submit_quiz demo_db (demo_request 2 POST []) 9 2)) 2 2 =
     Some (demo_attempt2\<lparr>score := Some 100, passed := True, completed_at := Some 9\<rparr>)"
    using submit_quiz_post(2)[OF h1 h2, of 9] by (simp add: demo_score2 p demo_request_def)
  show ?thesis
    using submit_passed_iff_score_ge_passing[OF h1 h2, of 9] h1 h2 g p
    by simp
qed

section \<open>Navigation\<close>

lemma get_answer_of_mem:
  assumes "get_answer_of d ansid attempt = Some a"
  shows "a \<in> set (QuizAttempt_answers d attempt)" and "answer_id a = ansid"
  using assms by (auto simp: get_answer_of_def QuizAttempt_answers_def dest: find_Some_mem)

lemma strict_sorted_sort: "sorted_wrt (<) (xs :: nat list) \<Longrightarrow> sort xs = xs \<and> distinct xs"
  by (simp add: strict_sorted_iff sorted_sort_id)

lemma int_pred_iff:
  assumes "i < (n :: nat)"
  shows "(int i = int n - 1) = (i = n - 1)" and "(int i < int n - 1) = (i \<noteq> n - 1)"
  using assms by linarith+

text \<open>
  C8. Let the keys of an attempt's answers increase in insertion order, as they do for
  the rows \<^verbatim>\<open>start_quiz\<close> inserts. For an answer of the owner's attempt at position \<open>i\<close>
  of that order, every page \<^verbatim>\<open>question_view\<close> renders carries the key before it as
  \<open>prev_id\<close> and the key after it as \<open>next_id\<close>, \<open>None\<close> at the first and at the last
  position, and \<open>is_first\<close> and \<open>is_last\<close> hold exactly at the first and at the last position;
  a request that is no POST always renders the page and leaves the database as it was.
\<close>

theorem question_view_navigation:
  assumes "get_attempt d aid (request_user req) = Some attempt"
    and "get_answer_of d ansid attempt = Some a"
    and "sorted_wrt (<) (map answer_id (QuizAttempt_answers d attempt))"
  shows "\<exists>i < length (QuizAttempt_answers d attempt).
           map answer_id (QuizAttempt_answers d attempt) ! i = ansid \<and>
           (request_method req \<noteq> POST \<longrightarrow>
              (\<exists>ctx. question_view d req aid ansid = (Render_question_view ctx, d))) \<and>
           (\<forall>ctx d'. question_view d req aid ansid = (Render_question_view ctx, d') \<longrightarrow>
              prev_id ctx =
                (if i = 0 then None
                 else Some (map answer_id (QuizAttempt_answers d attempt) ! (i - 1))) \<and>
              next_id ctx =
                (if i = length (QuizAttempt_answers d attempt) - 1 then None
                 else Some (map answer_id (QuizAttempt_answers d attempt) ! (i + 1))) \<and>
              is_first ctx = (i = 0) \<and>
              is_last ctx = (i = length (QuizAttempt_answers d attempt) - 1))"
proof -
  let ?ids = "map answer_id (QuizAttempt_answers d attempt)"
  have srt: "sort ?ids = ?ids" and dist: "distinct ?ids"
    using strict_sorted_sort[OF assms(3)] by simp_all
  have "ansid \<in> set ?ids"
    using get_answer_of_mem[OF assms(2)] by force
  then obtain i where i: "i < length ?ids" "?ids ! i = ansid"
    by (auto simp: in_set_conv_nth)
  have idx: "index_of ?ids (answer_id a) = Some i"
    using index_of_nth[OF dist i(1)] i(2) get_answer_of_mem(2)[OF assms(2)] by simp
  have last_iff: "(int i = int (length ?ids) - 1) = (i = length ?ids - 1)"
    by (rule int_pred_iff(1)[OF i(1)])
  have lt_iff: "(int i < int (length ?ids) - 1) = (i \<noteq> length ?ids - 1)"
    by (rule int_pred_iff(2)[OF i(1)])
  have nonpost: "request_method req \<noteq> POST \<longrightarrow>
      (\<exists>ctx. question_view d req aid ansid = (Render_question_view ctx, d))"
    using assms(1,2) idx by (simp add: question_view_def srt Let_def)
  have nav: "\<forall>ctx d'. question_view d req aid ansid = (Render_question_view ctx, d') \<longrightarrow>
              prev_id ctx = (if i = 0 then None else Some (?ids ! (i - 1))) \<and>
              next_id ctx = (if i = length ?ids - 1 then None else Some (?ids ! (i + 1))) \<and>
              is_first ctx = (i = 0) \<and>
              is_last ctx = (i = length ?ids - 1)"
    using assms(1,2) idx last_iff lt_iff
    by (auto simp: question_view_def srt Let_def split: prod.splits option.splits if_splits)
  show ?thesis
    using i nonpost nav by (intro exI[of _ i]) simp
qed

lemma demo_get_attempt1: "get_attempt demo_db 1 1 = Some demo_attempt1"
  by code_simp

lemma demo_answers1:
  "QuizAttempt_answers demo_db demo_attempt1 = [demo_answer 1 1 1, demo_answer 2 1 2, demo_answer 3 1 3]"
  by code_simp

theorem question_view_navigation_witness:
  "get_attempt demo_db 1 (request_user (demo_request 1 GET [])) = Some demo_attempt1 \<and>
   get_answer_of demo_db 3 demo_attempt1 = Some (demo_answer 3 1 3) \<and>
   sorted_wrt (<) (map answer_id (QuizAttempt_answers demo_db demo_attempt1)) \<and>
   (\<exists>ctx. question_view demo_db (demo_request 1 GET []) 1 3 = (Render_question_view ctx, demo_db) \<and>
      prev_id ctx = Some 2 \<and> next_id ctx = None \<and> \<not> is_first ctx \<and> is_last ctx)"
proof -
  let ?req = "demo_request 1 GET []"
  have h1: "get_attempt demo_db 1 (request_user ?req) = Some demo_attempt1"
    using demo_get_attempt1 by (simp add: demo_request_def)
  have h2: "get_answer_of demo_db 3 demo_attempt1 = Some (demo_answer 3 1 3)"
    by code_simp
  have ids: "map answer_id (QuizAttempt_answers demo_db demo_attempt1) = [1, 2, 3]"
    by (simp add: demo_answers1 demo_answer_def)
  have h3: "sorted_wrt (<) (map answer_id (QuizAttempt_answers demo_db demo_attempt1))"
    by (simp add: ids)
  have m: "request_method ?req \<noteq> POST"
    by (simp add: demo_request_def)
  let ?as = "QuizAttempt_answers demo_db demo_attempt1"
  from question_view_navigation[OF h1 h2 h3]
  obtain i where i: "i < length ?as" "map answer_id ?as ! i = 3"
    and np: "request_method ?req \<noteq> POST \<longrightarrow>
               (\<exists>ctx. question_view demo_db ?req 1 3 = (Render_question_view ctx, demo_db))"
    and nav: "\<forall>ctx d'. question_view demo_db ?req 1 3 = (Render_question_view ctx, d') \<longrightarrow>
              prev_id ctx = (if i = 0 then None else Some (map answer_id ?as ! (i - 1))) \<and>
              next_id ctx = (if i = length ?as - 1 then None else Some (map answer_id ?as ! (i + 1))) \<and>
              is_first ctx = (i = 0) \<and> is_last ctx = (i = length ?as - 1)"
    by blast
  have len: "length ?as = 3"
    by (simp add: demo_answers1)
  from i have i2: "i = 2"
    unfolding ids len by (auto simp: nth_Cons less_Suc_eq numeral_3_eq_3 split: nat.splits)
  from np m obtain ctx where r: "question_view demo_db ?req 1 3 = (Render_question_view ctx, demo_db)"
    by blast
  from nav r have "prev_id ctx = Some 2 \<and> next_id ctx = None \<and> \<not> is_first ctx \<and> is_last ctx"
    unfolding ids len i2 by fastforce
  with r h1 h2 h3 show ?thesis by blast
qed

section \<open>Questions without a correct option\<close>

text \<open>
  C10. When no option of an answer's question is marked correct, the answer is graded
  correct exactly when nothing is selected; so an answer that was never touched is
  graded correct on such a question.
\<close>

theorem is_correct_without_correct_option:
  assumes "list_all (\<lambda>opt. \<not> option_is_correct opt) (Question_options d (answer_question a))"
  shows "Answer_is_correct d a \<longleftrightarrow> Answer_selected_options d a = []"
  using assms
  by (auto simp: Answer_is_correct_def list_all_iff filter_empty_conv)

theorem is_correct_without_correct_option_witness:
  "list_all (\<lambda>opt. \<not> option_is_correct opt)
     (Question_options demo_db (answer_question (demo_answer 5 2 3))) \<and>
   Answer_selected_options demo_db (demo_answer 5 2 3) = [] \<and>
   Answer_is_correct demo_db (demo_answer 5 2 3)"
proof -
  have h: "list_all (\<lambda>opt. \<not> option_is_correct opt)
     (Question_options demo_db (answer_question (demo_answer 5 2 3)))"
    by code_simp
  have e: "Answer_selected_options demo_db (demo_answer 5 2 3) = []"
    by code_simp
  show ?thesis
    using is_correct_without_correct_option[OF h] h e by simp
qed

section \<open>Starting a quiz in a category without questions\<close>

text \<open>
  C6. For an existing category none of whose questions is eligible (in the category and
  not soft-deleted), \<^verbatim>\<open>start_quiz\<close> answers with the error message and the redirect to
  the dashboard, and the database is left as it was: no attempt and no answer is
  created.
\<close>

theorem start_quiz_no_questions:
  assumes "find (\<lambda>c. category_id c = cid) (categories d) = Some category"
    and "filter (\<lambda>q. question_category q = cid \<and> \<not> is_deleted q) (questions d) = []"
  shows "start_quiz d req draw cid =
     (Error_redirect_dashboard (''No questions available for '' @ category_name category), d)"
proof -
  have "category_id category = cid"
    using assms(1) by (auto dest: find_Some_mem)
  then show ?thesis using assms by (simp add: start_quiz_def)
qed

theorem start_quiz_no_questions_witness:
  "find (\<lambda>c. category_id c = 3) (categories demo_db) =
     Some \<lparr>category_id = 3, category_name = ''Empty''\<rparr> \<and>
   filter (\<lambda>q. question_category q = 3 \<and> \<not> is_deleted q) (questions demo_db) = [] \<and>
   start_quiz demo_db (demo_request 1 GET []) [] 3 =
     (Error_redirect_dashboard ''No questions available for Empty'', demo_db)"
proof -
  have h1: "find (\<lambda>c. category_id c = 3) (categories demo_db) =
     Some \<lparr>category_id = 3, category_name = ''Empty''\<rparr>"
    by (simp add: demo_db_def)
  have h2: "filter (\<lambda>q. question_category q = 3 \<and> \<not> is_deleted q) (questions demo_db) = []"
    by (simp add: demo_db_def demo_questions_def)
  show ?thesis
    using start_quiz_no_questions[OF h1 h2, of "demo_request 1 GET []" "[]"] h1 h2 by simp
qed

section \<open>Saving a selection\<close>

lemma find_option_by_id:
  assumes "Some i \<in> existing_option_ids d"
  shows "\<exists>opt. find (\<lambda>opt. int (option_id opt) = i) (options d) = Some opt \<and>
           opt \<in> set (options d) \<and> int (option_id opt) = i"
proof -
  from assms obtain opt' where "opt' \<in> set (options d)" "int (option_id opt') = i"
    by (auto simp: existing_option_ids_def)
  then have "find (\<lambda>opt. int (option_id opt) = i) (options d) \<noteq> None"
    by (auto simp: find_None_iff)
  then show ?thesis by (auto dest: find_Some_mem)
qed

lemma existing_option_ids_add [simp]:
  "existing_option_ids (selected_options_add d a opt) = existing_option_ids d"
  by (simp add: existing_option_ids_def selected_options_add_def)

lemma add_posted_options_ok:
  assumes "set vs \<subseteq> existing_option_ids d"
  shows "\<exists>sel. add_posted_options d a vs = (None, d\<lparr>answer_selected_options := sel\<rparr>) \<and>
           set sel = set (answer_selected_options d) \<union> {(answer_id a, n) | n. Some (int n) \<in> set vs}"
  using assms
proof (induction vs arbitrary: d)
  case Nil
  then show ?case by (auto intro: exI[of _ "answer_selected_options d"])
next
  case (Cons v vs)
  from Cons.prems obtain i where v: "v = Some i" and i: "Some i \<in> existing_option_ids d"
    by (auto simp: existing_option_ids_def)
  from find_option_by_id[OF i] obtain opt where
    f: "find (\<lambda>opt. int (option_id opt) = i) (options d) = Some opt" and oi: "int (option_id opt) = i"
    by blast
  let ?d1 = "selected_options_add d a opt"
  have "set vs \<subseteq> existing_option_ids ?d1"
    using Cons.prems by simp
  from Cons.IH[OF this] obtain sel where
    r: "add_posted_options ?d1 a vs = (None, ?d1\<lparr>answer_selected_options := sel\<rparr>)" and
    s: "set sel = set (answer_selected_options ?d1) \<union> {(answer_id a, n) | n. Some (int n) \<in> set vs}"
    by blast
  have d1: "?d1\<lparr>answer_selected_options := sel\<rparr> = d\<lparr>answer_selected_options := sel\<rparr>"
    by (simp add: selected_options_add_def)
  have s1: "set (answer_selected_options ?d1) =
              insert (answer_id a, option_id opt) (set (answer_selected_options d))"
    by (auto simp: selected_options_add_def)
  have "set sel = set (answer_selected_options d) \<union>
          {(answer_id a, n) | n. Some (int n) \<in> set (v # vs)}"
    unfolding s s1 v using oi by auto
  then show ?case
    using r f by (auto simp: v d1)
qed

lemma add_posted_options_fails:
  assumes "\<not> set vs \<subseteq> existing_option_ids d"
  shows "\<exists>d'. add_posted_options d a vs = (Some ValueError, d') \<or>
              add_posted_options d a vs = (Some Option_DoesNotExist, d')"
  using assms
proof (induction vs arbitrary: d)
  case Nil
  then show ?case by simp
next
  case (Cons v vs)
  show ?case
  proof (cases v)
    case None
    then show ?thesis by simp
  next
    case (Some i)
    show ?thesis
    proof (cases "find (\<lambda>opt. int (option_id opt) = i) (options d)")
      case None
      then show ?thesis using Some by simp
    next
      case (Some opt)
      then have "v \<in> existing_option_ids d"
        using \<open>v = Some i\<close> by (auto simp: existing_option_ids_def dest!: find_Some_mem)
      with Cons.prems have "\<not> set vs \<subseteq> existing_option_ids (selected_options_add d a opt)"
        by simp
      from Cons.IH[OF this] show ?thesis
        using Some \<open>v = Some i\<close> by simp
    qed
  qed
qed

lemma index_of_answer:
  assumes "get_answer_of d ansid attempt = Some a"
  shows "\<exists>idx. index_of (sort (map answer_id (QuizAttempt_answers d attempt))) (answer_id a) = Some idx"
proof -
  have "answer_id a \<in> set (sort (map answer_id (QuizAttempt_answers d attempt)))"
    using get_answer_of_mem(1)[OF assms] by simp
  then show ?thesis
    using index_of_None[of "sort (map answer_id (QuizAttempt_answers d attempt))" "answer_id a"]
    by (cases "index_of (sort (map answer_id (QuizAttempt_answers d attempt))) (answer_id a)") auto
qed

lemma selected_after_save:
  "Answer_selected_options (Answer_save (d\<lparr>answer_selected_options := sel\<rparr>) a) a' =
     filter (\<lambda>opt. (answer_id a', option_id opt) \<in> set sel) (options d)"
  by (simp add: Answer_selected_options_def Answer_save_def)

text \<open>
  C3, as amended. A POST by the owner of the attempt to one of its answers makes no
  check of which question a posted option belongs to. When every posted value is the
  key of an existing option, of whatever question, the page is rendered and the
  answer's selection is exactly the set of posted keys. When some posted value is not
  the key of an existing option, the request ends in an unhandled ValueError or
  \<^verbatim>\<open>Option.DoesNotExist\<close>.
\<close>

theorem set_selection_existing_options:
  assumes "get_attempt d aid (request_user req) = Some attempt"
    and "get_answer_of d ansid attempt = Some a"
    and "request_method req = POST"
  shows "(set (request_POST_options req) \<subseteq> existing_option_ids d \<longrightarrow>
            (\<exists>ctx. fst (question_view d req aid ansid) = Render_question_view ctx) \<and>
            set (map option_id (Answer_selected_options (snd (question_view d req aid ansid)) a)) =
              {n. Some (int n) \<in> set (request_POST_options req)}) \<and>
         (\<not> set (request_POST_options req) \<subseteq> existing_option_ids d \<longrightarrow>
            fst (question_view d req aid ansid) = Unhandled ValueError \<or>
            fst (question_view d req aid ansid) = Unhandled Option_DoesNotExist)"
proof -
  let ?vs = "request_POST_options req"
  let ?d0 = "selected_options_clear d a"
  from index_of_answer[OF assms(2)] obtain idx where
    idx: "index_of (sort (map answer_id (QuizAttempt_answers d attempt))) (answer_id a) = Some idx"
    by blast
  have ex0: "existing_option_ids ?d0 = existing_option_ids d"
    by (simp add: existing_option_ids_def selected_options_clear_def)
  have ok: "(\<exists>ctx. fst (question_view d req aid ansid) = Render_question_view ctx) \<and>
            set (map option_id (Answer_selected_options (snd (question_view d req aid ansid)) a)) =
              {n. Some (int n) \<in> set ?vs}"
    if sub: "set ?vs \<subseteq> existing_option_ids d"
  proof -
    from sub ex0 have "set ?vs \<subseteq> existing_option_ids ?d0" by simp
    from add_posted_options_ok[OF this, of a] obtain sel where
      r: "add_posted_options ?d0 a ?vs = (None, ?d0\<lparr>answer_selected_options := sel\<rparr>)" and
      s: "set sel = set (answer_selected_options ?d0) \<union> {(answer_id a, n) | n. Some (int n) \<in> set ?vs}"
      by blast
    have d0: "?d0\<lparr>answer_selected_options := sel\<rparr> = d\<lparr>answer_selected_options := sel\<rparr>"
      by (simp add: selected_options_clear_def)
    have qv: "question_view d req aid ansid =
        (Render_question_view
           \<lparr>context_attempt = attempt, context_answer = a,
            context_question = answer_question a,
            prev_id = (if 0 < idx
                       then Some (sort (map answer_id (QuizAttempt_answers d attempt)) ! (idx - 1))
                       else None),
            next_id = (if int idx < int (length (sort (map answer_id (QuizAttempt_answers d attempt)))) - 1
                       then Some (sort (map answer_id (QuizAttempt_answers d attempt)) ! (idx + 1))
                       else None),
            is_first = (idx = 0),
            is_last = (int idx = int (length (sort (map answer_id (QuizAttempt_answers d attempt)))) - 1),
            has_selection =
              (Answer_selected_options (Answer_save (d\<lparr>answer_selected_options := sel\<rparr>) a) a \<noteq> [])\<rparr>,
         Answer_save (d\<lparr>answer_selected_options := sel\<rparr>) a)"
      using assms idx r by (simp add: question_view_def Let_def d0)
    have cleared: "\<And>n. (answer_id a, n) \<notin> set (answer_selected_options ?d0)"
      by (auto simp: selected_options_clear_def)
    have "set (map option_id (filter (\<lambda>opt. (answer_id a, option_id opt) \<in> set sel) (options d))) =
            {n. Some (int n) \<in> set ?vs}"
      using sub cleared unfolding s by (auto simp: existing_option_ids_def)
    then show ?thesis
      by (simp add: qv selected_after_save)
  qed
  have bad: "fst (question_view d req aid ansid) = Unhandled ValueError \<or>
             fst (question_view d req aid ansid) = Unhandled Option_DoesNotExist"
    if nsub: "\<not> set ?vs \<subseteq> existing_option_ids d"
  proof -
    from nsub ex0 have "\<not> set ?vs \<subseteq> existing_option_ids ?d0" by simp
    from add_posted_options_fails[OF this, of a] obtain d' where
      "add_posted_options ?d0 a ?vs = (Some ValueError, d') \<or>
       add_posted_options ?d0 a ?vs = (Some Option_DoesNotExist, d')"
      by blast
    then show ?thesis
      using assms idx by (auto simp: question_view_def Let_def)
  qed
  from ok bad show ?thesis by blast
qed

theorem set_selection_existing_options_witness:
  "get_attempt demo_db 1 (request_user (demo_request 1 POST [Some 2, Some 11])) = Some demo_attempt1 \<and>
   get_answer_of demo_db 1 demo_attempt1 = Some (demo_answer 1 1 1) \<and>
   request_method (demo_request 1 POST [Some 2, Some 11]) = POST \<and>
   set (request_POST_options (demo_request 1 POST [Some 2, Some 11])) \<subseteq> existing_option_ids demo_db \<and>
   set (map option_id (Answer_selected_options
          (snd (question_view demo_db (demo_request 1 POST [Some 2, Some 11]) 1 1))
          (demo_answer 1 1 1))) = {2, 11}"
proof -
  let ?req = "demo_request 1 POST [Some 2, Some 11]"
  have h1: "get_attempt demo_db 1 (request_user ?req) = Some demo_attempt1"
    using demo_get_attempt1 by (simp add: demo_request_def)
  have h2: "get_answer_of demo_db 1 demo_attempt1 = Some (demo_answer 1 1 1)"
    by code_simp
  have h3: "request_method ?req = POST"
    by (simp add: demo_request_def)
  have h4: "set (request_POST_options ?req) \<subseteq> existing_option_ids demo_db"
    by (simp add: demo_request_def existing_option_ids_def demo_db_def demo_options_def)
  have "{n. Some (int n) \<in> set (request_POST_options ?req)} = {2, 11}"
    by (auto simp: demo_request_def)
  with set_selection_existing_options[OF h1 h2 h3] h1 h2 h3 h4 show ?thesis
    by simp
qed

text \<open>
  C3 as stated fails. In the small database, answer 1 belongs to question 1 and option
  11 to question 4. The owner's POST of option 11 is accepted: the page is rendered and
  the selection, which was option 1, is now option 11. The owner's POST of option 2
  and of the key 99, which no option has, ends in \<^verbatim>\<open>Option.DoesNotExist\<close> after the old
  selection was cleared and option 2 was added.
\<close>

theorem set_selection_invalid_option_counterexample:
  "map option_question (filter (\<lambda>opt. option_id opt = 11) (options demo_db)) = [4] \<and>
   answer_question (demo_answer 1 1 1) = 1 \<and>
   map option_id (Answer_selected_options demo_db (demo_answer 1 1 1)) = [1] \<and>
   fst (question_view demo_db (demo_request 1 POST [Some 11]) 1 1) =
     Render_question_view
       \<lparr>context_attempt = demo_attempt1, context_answer = demo_answer 1 1 1,
        context_question = 1, prev_id = None, next_id = Some 2,
        is_first = True, is_last = False, has_selection = True\<rparr> \<and>
   map option_id (Answer_selected_options
      (snd (question_view demo_db (demo_request 1 POST [Some 11]) 1 1)) (demo_answer 1 1 1)) = [11] \<and>
   filter (\<lambda>opt. option_id opt = 99) (options demo_db) = [] \<and>
   fst (question_view demo_db (demo_request 1 POST [Some 2, Some 99]) 1 1) =
     Unhandled Option_DoesNotExist \<and>
   map option_id (Answer_selected_options
      (snd (question_view demo_db (demo_request 1 POST [Some 2, Some 99]) 1 1))
      (demo_answer 1 1 1)) = [2]"
  by code_simp

section \<open>The stored score\<close>

lemma calculate_score_counts_stored_answers:
  "calculate_score d (self\<lparr>total_questions := n\<rparr>) = calculate_score d self"
  by (rule calculate_score_attempt_id) simp

lemma calculate_score_no_answers:
  "QuizAttempt_answers d self = [] \<Longrightarrow> calculate_score d self = 0"
  by (simp add: calculate_score_def)

text \<open>
  C2 fails on the stored score. Attempt 1 of the small database has three stored
  answers, two of them correct. \<^verbatim>\<open>calculate_score\<close> returns the float 66.67, and the row
  that \<^verbatim>\<open>submit_quiz\<close> saves holds the score 66: the \<^verbatim>\<open>IntegerField\<close> keeps the integer
  part only.
\<close>

theorem submit_quiz_stores_integer_score:
  "length (QuizAttempt_answers demo_db demo_attempt1) = 3 \<and>
   length (filter (Answer_is_correct demo_db) (QuizAttempt_answers demo_db demo_attempt1)) = 2 \<and>
   calculate_score demo_db demo_attempt1 = fl (6667 / 100) \<and>
   get_attempt (snd (submit_quiz demo_db (demo_request 1 POST []) 9 1)) 1 1 =
     Some (demo_attempt1\<lparr>score := Some 66, passed := False, completed_at := Some 9\<rparr>)"
  by code_simp

section \<open>Requests of another user\<close>

lemma views_of_another_user:
  assumes "get_attempt d aid (request_user req) = None"
  shows "question_view d req aid ansid = (Http404, d)"
    and "review_panel d req aid = (Http404, d)"
    and "submit_quiz d req now aid = (Http404, d)"
    and "quiz_results d req aid = (Http404, d)"
  using assms by (simp_all add: question_view_def review_panel_def submit_quiz_def quiz_results_def)

lemma get_attempt_of_another_user:
  assumes "distinct (map attempt_id (quiz_attempts d))"
    and "r \<in> set (quiz_attempts d)" and "attempt_id r = aid" and "attempt_user r \<noteq> u"
  shows "get_attempt d aid u = None"
proof -
  have "r' = r" if "r' \<in> set (quiz_attempts d)" "attempt_id r' = aid" for r'
    using that assms(1-3) by (auto simp: distinct_map dest: inj_onD)
  with assms(4) show ?thesis
    by (auto simp: get_attempt_def find_None_iff)
qed

text \<open>
  C4 fails for \<^verbatim>\<open>toggle_flag\<close>. In the small database answer 1 belongs to attempt 1 of user
  1. User 2 is refused the page of that answer with 404, but user 2's call of
  \<^verbatim>\<open>toggle_flag\<close> on answer 1 is answered with the new flag, and the flag is stored.
\<close>

theorem toggle_flag_of_another_user:
  "map answer_attempt (filter (\<lambda>r. answer_id r = 1) (answers demo_db)) = [1] \<and>
   map attempt_user (filter (\<lambda>r. attempt_id r = 1) (quiz_attempts demo_db)) = [1] \<and>
   question_view demo_db (demo_request 2 GET []) 1 1 = (Http404, demo_db) \<and>
   map is_flagged (answers demo_db) = [False, False, False, False, False] \<and>
   fst (toggle_flag demo_db (demo_request 2 POST []) 1) = JsonResponse_flagged True \<and>
   map is_flagged (answers (snd (toggle_flag demo_db (demo_request 2 POST []) 1))) =
     [True, False, False, False, False]"
  by code_simp

section \<open>Starting a quiz\<close>

lemma fold_max_ge: "(a :: nat) \<le> fold max xs a \<and> (\<forall>x \<in> set xs. x \<le> fold max xs a)"
proof (induction xs arbitrary: a)
  case Nil
  then show ?case by simp
next
  case (Cons y ys)
  have "max y a \<le> fold max ys (max y a)" and "\<forall>x \<in> set ys. x \<le> fold max ys (max y a)"
    using Cons.IH[of "max y a"] by simp_all
  then show ?case by auto
qed

lemma new_id_greater: "x \<in> set ids \<Longrightarrow> x < new_id ids"
  using fold_max_ge[of 0 ids] by (auto simp: new_id_def less_Suc_eq_le)

lemma create_answers_appends:
  assumes "distinct (map question_id qs)"
    and "\<forall>r \<in> set (answers d). answer_attempt r = att \<longrightarrow> answer_question r \<notin> question_id ` set qs"
  shows "\<exists>new. create_answers d att qs = (None, d\<lparr>answers := answers d @ new\<rparr>) \<and>
           map answer_question new = map question_id qs \<and>
           (\<forall>r \<in> set new. answer_attempt r = att \<and> \<not> is_flagged r \<and>
              (\<forall>x \<in> set (map answer_id (answers d)). x < answer_id r)) \<and>
           sorted_wrt (<) (map answer_id new)"
  using assms
proof (induction qs arbitrary: d)
  case Nil
  show ?case by (rule exI[of _ "[]"]) simp
next
  case (Cons q qs)
  let ?r0 = "\<lparr>answer_id = new_id (map answer_id (answers d)), answer_attempt = att,
               answer_question = question_id q, is_flagged = False\<rparr>"
  let ?d1 = "d\<lparr>answers := answers d @ [?r0]\<rparr>"
  have free: "\<not> (\<exists>r \<in> set (answers d). answer_attempt r = att \<and> answer_question r = question_id q)"
    using Cons.prems(2) by auto
  then have cr: "Answer_create d att (question_id q) = Inr ?d1"
    by (simp add: Answer_create_def)
  have p1: "distinct (map question_id qs)"
    using Cons.prems(1) by simp
  have p2: "\<forall>r \<in> set (answers ?d1). answer_attempt r = att \<longrightarrow>
              answer_question r \<notin> question_id ` set qs"
    using Cons.prems by auto
  from Cons.IH[OF p1 p2] obtain new where
    r: "create_answers ?d1 att qs = (None, ?d1\<lparr>answers := answers ?d1 @ new\<rparr>)" and
    q: "map answer_question new = map question_id qs" and
    n: "\<forall>r \<in> set new. answer_attempt r = att \<and> \<not> is_flagged r \<and>
              (\<forall>x \<in> set (map answer_id (answers ?d1)). x < answer_id r)" and
    s: "sorted_wrt (<) (map answer_id new)"
    by blast
  have e: "?d1\<lparr>answers := answers ?d1 @ new\<rparr> = d\<lparr>answers := answers d @ (?r0 # new)\<rparr>"
    by simp
  have 1: "create_answers d att (q # qs) = (None, d\<lparr>answers := answers d @ (?r0 # new)\<rparr>)"
    using cr r by (simp add: e)
  have 2: "map answer_question (?r0 # new) = map question_id (q # qs)"
    using q by simp
  have 3: "\<forall>r \<in> set (?r0 # new). answer_attempt r = att \<and> \<not> is_flagged r \<and>
              (\<forall>x \<in> set (map answer_id (answers d)). x < answer_id r)"
    using n by (auto simp: new_id_greater)
  have 4: "sorted_wrt (<) (map answer_id (?r0 # new))"
    using s n by auto
  show ?case
    using 1 2 3 4 by (intro exI[of _ "?r0 # new"]) blast
qed

lemma sample_distinct:
  assumes "distinct (map f xs)" and "distinct draw" and "list_all (\<lambda>i. i < length xs) draw"
  shows "distinct (map f (map (\<lambda>i. xs ! i) draw))"
    and "set (map (\<lambda>i. xs ! i) draw) \<subseteq> set xs"
proof -
  have "inj_on (\<lambda>i. f (xs ! i)) (set draw)"
  proof (rule inj_onI)
    fix i j
    assume "i \<in> set draw" "j \<in> set draw" "f (xs ! i) = f (xs ! j)"
    then have "i < length (map f xs)" "j < length (map f xs)" "map f xs ! i = map f xs ! j"
      using assms(3) by (auto simp: list_all_iff)
    then show "i = j"
      using assms(1) by (simp only: nth_eq_iff_index_eq)
  qed
  then show "distinct (map f (map (\<lambda>i. xs ! i) draw))"
    using assms(2) by (simp add: distinct_map comp_def)
  show "set (map (\<lambda>i. xs ! i) draw) \<subseteq> set xs"
    using assms(3) by (auto simp: list_all_iff)
qed

text \<open>
  C5. Let the database keep its constraints (question keys are unique, every answer
  refers to an existing attempt, every selection row to an existing answer), let the
  category exist and have \<open>k > 0\<close> eligible questions, and let the library's sample
  be \<open>min 10 k\<close> positions of the eligible questions, none twice. Then \<^verbatim>\<open>start_quiz\<close>
  redirects to a new attempt of the requesting user with \<open>total_questions = min 10 k\<close>,
  no score, not passed and not completed; the attempt has exactly \<open>min 10 k\<close> answers,
  on pairwise distinct eligible questions, each with an empty selection and unflagged;
  and the keys of these answers increase in the order of insertion.
\<close>

theorem start_quiz_creates_attempt:
  assumes "find (\<lambda>c. category_id c = cid) (categories d) = Some category"
    and "eligible = filter (\<lambda>q. question_category q = cid \<and> \<not> is_deleted q) (questions d)"
    and "eligible \<noteq> []"
    and "valid_draw (length eligible) (min 10 (length eligible)) draw"
    and "database_constraints d"
  shows "\<exists>attempt d'.
     start_quiz d req draw cid = (Redirect_take_quiz (attempt_id attempt), d') \<and>
     quiz_attempts d' = quiz_attempts d @ [attempt] \<and>
     attempt_id attempt \<notin> set (map attempt_id (quiz_attempts d)) \<and>
     attempt_user attempt = request_user req \<and> attempt_category attempt = cid \<and>
     total_questions attempt = int (min 10 (length eligible)) \<and>
     score attempt = None \<and> \<not> passed attempt \<and> completed_at attempt = None \<and>
     length (QuizAttempt_answers d' attempt) = min 10 (length eligible) \<and>
     distinct (map answer_question (QuizAttempt_answers d' attempt)) \<and>
     set (map answer_question (QuizAttempt_answers d' attempt)) \<subseteq> set (map question_id eligible) \<and>
     list_all (\<lambda>a. Answer_selected_options d' a = [] \<and> \<not> is_flagged a)
       (QuizAttempt_answers d' attempt) \<and>
     sorted_wrt (<) (map answer_id (QuizAttempt_answers d' attempt))"
proof -
  let ?n = "min 10 (length eligible)"
  let ?aid = "new_id (map attempt_id (quiz_attempts d))"
  let ?attempt = "\<lparr>attempt_id = ?aid, attempt_user = request_user req, attempt_category = cid,
       total_questions = int ?n, passing_score = 70, time_limit = 30, score = None,
       passed = False, completed_at = None\<rparr>"
  let ?d1 = "d\<lparr>quiz_attempts := quiz_attempts d @ [?attempt]\<rparr>"
  let ?sel = "map (\<lambda>i. eligible ! i) draw"
  have cat: "category_id category = cid"
    using assms(1) by (auto dest: find_Some_mem)
  have draw: "length draw = ?n" "distinct draw" "list_all (\<lambda>i. i < length eligible) draw"
    using assms(4) by (simp_all add: valid_draw_def)
  have sample: "random_sample eligible ?n draw = ?sel"
    using draw(1) by (simp add: random_sample_def)
  have pk: "distinct (map question_id eligible)"
    using assms(5) unfolding assms(2) database_constraints_def by (simp add: distinct_map_filter)
  have fresh: "?aid \<notin> set (map attempt_id (quiz_attempts d))"
    using new_id_greater[of ?aid "map attempt_id (quiz_attempts d)"] by auto
  have fk: "set (map answer_attempt (answers d)) \<subseteq> set (map attempt_id (quiz_attempts d))"
    using assms(5) by (simp add: database_constraints_def)
  have none_old: "\<forall>r \<in> set (answers d). answer_attempt r \<noteq> ?aid"
  proof
    fix r
    assume "r \<in> set (answers d)"
    then have "answer_attempt r \<in> set (map answer_attempt (answers d))"
      by simp
    with fk have "answer_attempt r \<in> set (map attempt_id (quiz_attempts d))"
      by blast
    with fresh show "answer_attempt r \<noteq> ?aid"
      by metis
  qed
  have dsel: "distinct (map question_id ?sel)" and ssel: "set ?sel \<subseteq> set eligible"
    using sample_distinct[OF pk draw(2,3)] by simp_all
  have pre: "\<forall>r \<in> set (answers ?d1). answer_attempt r = ?aid \<longrightarrow>
               answer_question r \<notin> question_id ` set ?sel"
    using none_old by simp
  from create_answers_appends[OF dsel pre] obtain new where
    cr: "create_answers ?d1 ?aid ?sel = (None, ?d1\<lparr>answers := answers ?d1 @ new\<rparr>)" and
    q: "map answer_question new = map question_id ?sel" and
    n: "\<forall>r \<in> set new. answer_attempt r = ?aid \<and> \<not> is_flagged r \<and>
              (\<forall>x \<in> set (map answer_id (answers ?d1)). x < answer_id r)" and
    srt: "sorted_wrt (<) (map answer_id new)"
    by blast
  let ?d2 = "?d1\<lparr>answers := answers ?d1 @ new\<rparr>"
  have create: "QuizAttempt_create d (request_user req) cid (int ?n) = (?attempt, ?d1)"
    by (simp add: QuizAttempt_create_def Let_def)
  have run: "start_quiz d req draw cid = (Redirect_take_quiz ?aid, ?d2)"
    using assms(1,3) cr
    by (simp add: start_quiz_def cat assms(2)[symmetric] sample create del: create_answers.simps)
  have mine: "QuizAttempt_answers ?d2 ?attempt = new"
    using none_old n by (auto simp: QuizAttempt_answers_def filter_empty_conv filter_id_conv)
  have len: "length new = ?n"
    using arg_cong[OF q, of length] draw(1) by simp
  have qs: "distinct (map answer_question new)"
    "set (map answer_question new) \<subseteq> set (map question_id eligible)"
    using dsel ssel unfolding q by auto
  have empty: "Answer_selected_options ?d2 a = []" if "a \<in> set new" for a
  proof -
    have "answer_id a \<notin> set (map answer_id (answers d))"
      using n that by fastforce
    then have "\<And>k. (answer_id a, k) \<notin> set (answer_selected_options d)"
      using assms(5) unfolding database_constraints_def by force
    then show ?thesis
      by (simp add: Answer_selected_options_def filter_empty_conv)
  qed
  have all: "list_all (\<lambda>a. Answer_selected_options ?d2 a = [] \<and> \<not> is_flagged a) new"
    using empty n by (simp add: list_all_iff)
  show ?thesis
    apply (rule exI[of _ ?attempt], rule exI[of _ ?d2])
    using run fresh mine len qs all srt by simp
qed

theorem start_quiz_creates_attempt_witness:
  "find (\<lambda>c. category_id c = 1) (categories demo_db) =
     Some \<lparr>category_id = 1, category_name = ''Python''\<rparr> \<and>
   map question_id (filter (\<lambda>q. question_category q = 1 \<and> \<not> is_deleted q) (questions demo_db)) =
     [1, 2, 3] \<and>
   valid_draw 3 (min 10 3) [2, 0, 1] \<and>
   database_constraints demo_db \<and>
   fst (start_quiz demo_db (demo_request 1 GET []) [2, 0, 1] 1) = Redirect_take_quiz 3 \<and>
   map total_questions (filter (\<lambda>r. attempt_id r = 3)
     (quiz_attempts (snd (start_quiz demo_db (demo_request 1 GET []) [2, 0, 1] 1)))) = [3] \<and>
   map answer_question (filter (\<lambda>a. answer_attempt a = 3)
     (answers (snd (start_quiz demo_db (demo_request 1 GET []) [2, 0, 1] 1)))) = [3, 1, 2] \<and>
   map answer_id (filter (\<lambda>a. answer_attempt a = 3)
     (answers (snd (start_quiz demo_db (demo_request 1 GET []) [2, 0, 1] 1)))) = [6, 7, 8]"
proof -
  let ?eligible = "filter (\<lambda>q. question_category q = 1 \<and> \<not> is_deleted q) (questions demo_db)"
  have h1: "find (\<lambda>c. category_id c = 1) (categories demo_db) =
     Some \<lparr>category_id = 1, category_name = ''Python''\<rparr>"
    by (simp add: demo_db_def)
  have e: "map question_id ?eligible = [1, 2, 3]"
    by (simp add: demo_db_def demo_questions_def)
  have len: "length ?eligible = 3"
    by (simp add: demo_db_def demo_questions_def)
  have h3: "?eligible \<noteq> []"
    using len by auto
  have v: "valid_draw 3 (min 10 3) [2, 0, 1]"
    by (simp add: valid_draw_def)
  have h4: "valid_draw (length ?eligible) (min 10 (length ?eligible)) [2, 0, 1]"
    using v by (simp only: len)
  have h5: "database_constraints demo_db"
    by (simp add: database_constraints_def demo_db_def demo_questions_def demo_attempt1_def
        demo_attempt2_def demo_answer_def)
  have r: "fst (start_quiz demo_db (demo_request 1 GET []) [2, 0, 1] 1) = Redirect_take_quiz 3 \<and>
   map total_questions (filter (\<lambda>r. attempt_id r = 3)
     (quiz_attempts (snd (start_quiz demo_db (demo_request 1 GET []) [2, 0, 1] 1)))) = [3] \<and>
   map answer_question (filter (\<lambda>a. answer_attempt a = 3)
     (answers (snd (start_quiz demo_db (demo_request 1 GET []) [2, 0, 1] 1)))) = [3, 1, 2] \<and>
   map answer_id (filter (\<lambda>a. answer_attempt a = 3)
     (answers (snd (start_quiz demo_db (demo_request 1 GET []) [2, 0, 1] 1)))) = [6, 7, 8]"
    by code_simp
  show ?thesis
    using start_quiz_creates_attempt[OF h1 refl h3 h4 h5, of "demo_request 1 GET []"] h1 e v h5 r
    by blast
qed

end
